theory Spec2Isabelle
  imports Main
begin

section \<open>Package config: the configuration check\<close>

text \<open>
  The settings live in a process-wide \<^verbatim>\<open>*viper.Viper\<close>. Of that library the check
  only calls \<^verbatim>\<open>GetString\<close>, so the settings are taken as the function from a key
  to the string \<^verbatim>\<open>GetString\<close> returns for it (the empty string for an unset key).
\<close>

type_synonym Viper = "string \<Rightarrow> string"

definition DaemonTypeKey :: string where
  "DaemonTypeKey = ''daemon_type''"

definition SSLCertPathKey :: string where
  "SSLCertPathKey = ''ssl_cert''"

definition SSLKeyPathKey :: string where
  "SSLKeyPathKey = ''ssl_key''"

text \<open>
  A Go \<^verbatim>\<open>error\<close> is modelled by its message; \<open>None\<close> is \<^verbatim>\<open>nil\<close>.
  \<^verbatim>\<open>%+v\<close> prints a string as it is, between the two quote characters of the format.
\<close>

definition config_Validate :: "Viper \<Rightarrow> string option" where
  "config_Validate vip =
     (let dType = vip DaemonTypeKey in
      if dType = ''grpc'' \<or> dType = ''http'' then
        (let certPath = vip SSLCertPathKey; keyPath = vip SSLKeyPathKey in
         if (certPath \<noteq> [] \<and> keyPath = []) \<or> (certPath = [] \<and> keyPath \<noteq> []) then
           Some ''SSL requires both key and certificate when enabled''
         else None)
      else Some (''unrecognized DAEMON_TYPE '' @ [CHR 0x27] @ dType @ [CHR 0x27]))"

section \<open>Package escrow: the income validator\<close>

text \<open>
  The gRPC status codes of \<^verbatim>\<open>google.golang.org/grpc/codes\<close> and a status value
  (code and message). A \<^verbatim>\<open>*status.Status\<close> is a \<open>Status option\<close>, with \<open>None\<close> for
  \<^verbatim>\<open>nil\<close>.
\<close>

datatype Code =
    OK | Canceled | Unknown | InvalidArgument | DeadlineExceeded | NotFound
  | AlreadyExists | PermissionDenied | ResourceExhausted | FailedPrecondition
  | Aborted | OutOfRange | Unimplemented | Internal | Unavailable | DataLoss
  | Unauthenticated

record Status =
  code :: Code
  message :: string

text \<open>
  Modelled from the spec: \<^verbatim>\<open>handler.GrpcStreamContext\<close> is declared outside the
  sources at hand. The fields are the call metadata contract of the specification: method
  name (\<open>None\<close> when it cannot be resolved), optional invoice identifier, channel id
  (\<open>None\<close> when absent), claimed nonce and claimed previous authorized amount.
\<close>

record GrpcStreamContext =
  methodName :: "string option"
  invoiceId :: "string option"
  channelId :: "nat option"
  claimedNonce :: int
  claimedPreviousAuthorized :: int

text \<open>
  \<^verbatim>\<open>IncomeData\<close>: both fields are pointers, so either may be \<^verbatim>\<open>nil\<close>;
  \<^verbatim>\<open>*big.Int\<close> is an unbounded integer.
\<close>

record IncomeData =
  Income :: "int option"
  GrpcContext :: "GrpcStreamContext option"

text \<open>
  Modelled from the spec: \<^verbatim>\<open>blockchain.Agent\<close> is declared outside the sources at
  hand. The specification calls it the chain oracle, a read-only lookup of the committed
  full amount and expiration of a channel.
\<close>

type_synonym Agent = "nat \<rightharpoonup> int \<times> int"

record incomeValidator =
  agent :: "Agent option"

text \<open>
  Modelled from the spec: the payment channel record and the channel state store are not
  declared in the sources at hand. A channel has a full deposit amount, an authorized
  amount, a nonce and an expiration; the store maps a channel id to its channel.
  The environment of a call is the store, the clock expirations are compared with, and
  the answers the store would give to the next compare-and-update requests (\<open>False\<close> for
  a conflict), one consumed by each request.
\<close>

record PaymentChannel =
  fullAmount :: int
  authorizedAmount :: int
  nonce :: int
  expiration :: int

record World =
  store :: "nat \<rightharpoonup> PaymentChannel"
  clock :: int
  casAnswers :: "bool list"

text \<open>
  \<^verbatim>\<open>incomeValidator.Validate\<close>. The body is the single statement
  \<^verbatim>\<open>return nil\<close>: it reads neither the receiver nor the argument and calls nothing,
  so the environment comes back as it went in. The argument is a pointer and may be
  \<^verbatim>\<open>nil\<close>.
\<close>

definition Validate ::
  "incomeValidator \<Rightarrow> IncomeData option \<Rightarrow> World \<Rightarrow> Status option \<times> World" where
  "Validate validator data w = (None, w)"

text \<open>
  A run of calls, one after the other: the environment before the first call and after
  each call, in order.
\<close>

fun validateAll :: "incomeValidator \<Rightarrow> IncomeData option list \<Rightarrow> World \<Rightarrow> World list" where
  "validateAll validator [] w = [w]"
| "validateAll validator (d # ds) w = w # validateAll validator ds (snd (Validate validator d w))"

section \<open>The input classes of the specification\<close>

text \<open>
  The code computes none of the following. They name the classes of inputs the
  specification tells apart, so that the behaviour of the code on each class can be
  stated.

  Modelled from the spec: the pricing policy, a pure function from the method name and
  the optional invoice identifier to the required price. No pricing policy is declared
  in the sources at hand.
\<close>

type_synonym PricingPolicy = "string \<Rightarrow> string option \<Rightarrow> int"

definition channelOf :: "IncomeData \<Rightarrow> nat option" where
  "channelOf d = Option.bind (GrpcContext d) channelId"

definition methodOf :: "IncomeData \<Rightarrow> string option" where
  "methodOf d = Option.bind (GrpcContext d) methodName"

definition priceOf :: "PricingPolicy \<Rightarrow> IncomeData \<Rightarrow> int option" where
  "priceOf price d =
     (case GrpcContext d of
        None \<Rightarrow> None
      | Some ctx \<Rightarrow> map_option (\<lambda>m. price m (invoiceId ctx)) (methodName ctx))"

definition channelFor :: "World \<Rightarrow> IncomeData \<Rightarrow> PaymentChannel option" where
  "channelFor w d = Option.bind (channelOf d) (store w)"

text \<open>Step 1: negative claimed income, absent channel id, or unresolved method name.\<close>

definition invalidArgument :: "IncomeData \<Rightarrow> bool" where
  "invalidArgument d =
     ((case Income d of None \<Rightarrow> False | Some i \<Rightarrow> i < 0) \<or>
      channelOf d = None \<or> methodOf d = None)"

text \<open>Step 3: the claimed income against the required price.\<close>

definition underpaid :: "PricingPolicy \<Rightarrow> IncomeData \<Rightarrow> bool" where
  "underpaid price d =
     (case (Income d, priceOf price d) of
        (Some i, Some p) \<Rightarrow> i < p
      | _ \<Rightarrow> False)"

definition paid :: "PricingPolicy \<Rightarrow> IncomeData \<Rightarrow> bool" where
  "paid price d =
     (case (Income d, priceOf price d) of
        (Some i, Some p) \<Rightarrow> p \<le> i
      | _ \<Rightarrow> False)"

text \<open>Step 5: the claimed previous authorized amount and nonce against the store.\<close>

definition claimsMatch :: "World \<Rightarrow> IncomeData \<Rightarrow> bool" where
  "claimsMatch w d =
     (case (GrpcContext d, channelFor w d) of
        (Some ctx, Some ch) \<Rightarrow>
          claimedPreviousAuthorized ctx = authorizedAmount ch \<and> claimedNonce ctx = nonce ch
      | _ \<Rightarrow> False)"


text \<open>Step 6: the prospective authorized amount against the deposit, and the expiration.\<close>

definition exceedsOrExpired :: "World \<Rightarrow> IncomeData \<Rightarrow> bool" where
  "exceedsOrExpired w d =
     (case (Income d, channelFor w d) of
        (Some i, Some ch) \<Rightarrow> fullAmount ch < authorizedAmount ch + i \<or> expiration ch < clock w
      | _ \<Rightarrow> False)"

definition withinAndUnexpired :: "World \<Rightarrow> IncomeData \<Rightarrow> bool" where
  "withinAndUnexpired w d =
     (case (Income d, channelFor w d) of
        (Some i, Some ch) \<Rightarrow> authorizedAmount ch + i \<le> fullAmount ch \<and> clock w \<le> expiration ch
      | _ \<Rightarrow> False)"

text \<open>
  The inputs the first testable property calls accept-eligible: income at least the
  price, remaining capacity at least the price, matching claims, channel unexpired.
\<close>

definition acceptEligible :: "PricingPolicy \<Rightarrow> World \<Rightarrow> IncomeData \<Rightarrow> bool" where
  "acceptEligible price w d =
     (paid price d \<and> claimsMatch w d \<and>
      (case (priceOf price d, channelFor w d) of
         (Some p, Some ch) \<Rightarrow> p \<le> fullAmount ch - authorizedAmount ch \<and> clock w \<le> expiration ch
       | _ \<Rightarrow> False))"

text \<open>
  Step 7: an input that passes steps 1 to 6 while the store would answer the next two
  compare-and-update requests with a conflict.
\<close>

definition losesRaceTwice :: "PricingPolicy \<Rightarrow> World \<Rightarrow> IncomeData \<Rightarrow> bool" where
  "losesRaceTwice price w d =
     (\<not> invalidArgument d \<and> paid price d \<and> claimsMatch w d \<and> withinAndUnexpired w d \<and>
      take 2 (casAnswers w) = [False, False])"

text \<open>What the store holds for a channel, and the channel invariant.\<close>

definition authorizedOf :: "World \<Rightarrow> nat \<Rightarrow> int option" where
  "authorizedOf w c = map_option authorizedAmount (store w c)"

definition nonceOf :: "World \<Rightarrow> nat \<Rightarrow> int option" where
  "nonceOf w c = map_option nonce (store w c)"

definition withinDeposit :: "World \<Rightarrow> nat \<Rightarrow> bool" where
  "withinDeposit w c =
     (case store w c of None \<Rightarrow> True | Some ch \<Rightarrow> authorizedAmount ch \<le> fullAmount ch)"

definition notDecreased :: "nat \<Rightarrow> World \<Rightarrow> World \<Rightarrow> bool" where
  "notDecreased c w w' =
     (case (store w c, store w' c) of
        (Some a, Some b) \<Rightarrow> authorizedAmount a \<le> authorizedAmount b
      | (Some a, None) \<Rightarrow> False
      | (None, _) \<Rightarrow> True)"

text \<open>The first of the three cases of step 1 alone.\<close>

definition negativeIncome :: "IncomeData \<Rightarrow> bool" where
  "negativeIncome d = (case Income d of None \<Rightarrow> False | Some i \<Rightarrow> i < 0)"

text \<open>
  The statuses a run of calls returns, one after the other, each call on the environment
  the call before it left; and how many of a list of statuses are nil, or carry a given
  code.
\<close>

fun outcomes :: "incomeValidator \<Rightarrow> IncomeData option list \<Rightarrow> World \<Rightarrow> Status option list" where
  "outcomes validator [] w = []"
| "outcomes validator (d # ds) w =
     fst (Validate validator d w) # outcomes validator ds (snd (Validate validator d w))"

definition accepted :: "Status option list \<Rightarrow> nat" where
  "accepted rs = length (filter (\<lambda>r. r = None) rs)"

definition rejectedAs :: "Code \<Rightarrow> Status option list \<Rightarrow> nat" where
  "rejectedAs k rs = length (filter (\<lambda>r. map_option code r = Some k) rs)"

text \<open>
  The contended channel of the specification: more than \<open>k\<close> calls on channel \<open>c\<close>, each
  accept-eligible and each claiming exactly the price \<open>P\<close>, while the remaining capacity
  of the channel is exactly \<open>k\<close> times \<open>P\<close>.
\<close>

definition contended ::
  "PricingPolicy \<Rightarrow> int \<Rightarrow> nat \<Rightarrow> World \<Rightarrow> nat \<Rightarrow> IncomeData list \<Rightarrow> bool" where
  "contended price P k w c ds =
     (0 < P \<and> k < length ds \<and>
      (case store w c of
         None \<Rightarrow> False
       | Some ch \<Rightarrow> fullAmount ch - authorizedAmount ch = int k * P) \<and>
      list_all (\<lambda>d. Income d = Some P \<and> priceOf price d = Some P \<and> channelOf d = Some c \<and>
                  acceptEligible price w d) ds)"

text \<open>
  Concrete inputs of the scenarios: a validator without agent, a static price, a store
  holding channel 1 only, and a call on channel 1 for method \<open>m\<close>.
\<close>

abbreviation validator0 :: incomeValidator where
  "validator0 \<equiv> \<lparr>agent = None\<rparr>"

abbreviation staticPrice :: "int \<Rightarrow> PricingPolicy" where
  "staticPrice p \<equiv> (\<lambda>m inv. p)"

abbreviation channel :: "int \<Rightarrow> int \<Rightarrow> int \<Rightarrow> PaymentChannel" where
  "channel full authorized n \<equiv>
     \<lparr>fullAmount = full, authorizedAmount = authorized, nonce = n, expiration = 1000\<rparr>"

abbreviation world1 :: "PaymentChannel \<Rightarrow> bool list \<Rightarrow> World" where
  "world1 ch answers \<equiv> \<lparr>store = [1 \<mapsto> ch], clock = 0, casAnswers = answers\<rparr>"

abbreviation call :: "int \<Rightarrow> int \<Rightarrow> int \<Rightarrow> IncomeData" where
  "call income previous n \<equiv>
     \<lparr>Income = Some income,
      GrpcContext = Some \<lparr>methodName = Some ''m'', invoiceId = None, channelId = Some 1,
        claimedNonce = n, claimedPreviousAuthorized = previous\<rparr>\<rparr>"

abbreviation callWithout :: "string option \<Rightarrow> nat option \<Rightarrow> IncomeData" where
  "callWithout m c \<equiv>
     \<lparr>Income = Some 10,
      GrpcContext = Some \<lparr>methodName = m, invoiceId = None, channelId = c,
        claimedNonce = 5, claimedPreviousAuthorized = 20\<rparr>\<rparr>"

abbreviation fiveCalls :: "IncomeData list" where
  "fiveCalls \<equiv> [call 10 80 5, call 10 80 5, call 10 80 5, call 10 80 5, call 10 80 5]"

section \<open>The income validator accepts every call\<close>

text \<open>
  C2. For every IncomeData value (any income amount, negative or nil, with or without
  metadata, and also for a nil argument), incomeValidator.Validate returns nil: every
  call is reported as validated and no input is rejected with an error status.
\<close>

theorem Validate_returns_nil:
  "fst (Validate validator data w) = None"
  by (simp add: Validate_def)

section \<open>Accepted calls leave the channel as it was\<close>

text \<open>
  C1, as the code has it. For every input with claimed income at least the required
  price, remaining capacity at least the required price, matching claimed nonce and
  previous authorized amount, and an unexpired channel, Validate returns nil (Accepted);
  the stored authorized amount and nonce of every channel are left as they were, since
  Validate itself advances nothing.
\<close>

theorem Validate_accept_eligible:
  assumes "acceptEligible price w d"
  shows "fst (Validate validator (Some d) w) = None \<and>
         authorizedOf (snd (Validate validator (Some d) w)) c = authorizedOf w c \<and>
         nonceOf (snd (Validate validator (Some d) w)) c = nonceOf w c"
  by (simp add: Validate_def)

theorem Validate_accept_eligible_witness:
  "acceptEligible (staticPrice 10) (world1 (channel 100 20 5) []) (call 10 20 5) \<and>
   fst (Validate validator0 (Some (call 10 20 5)) (world1 (channel 100 20 5) [])) = None \<and>
   authorizedOf (snd (Validate validator0 (Some (call 10 20 5)) (world1 (channel 100 20 5) []))) 1
     = Some 20 \<and>
   nonceOf (snd (Validate validator0 (Some (call 10 20 5)) (world1 (channel 100 20 5) []))) 1
     = Some 5"
proof -
  have h: "acceptEligible (staticPrice 10) (world1 (channel 100 20 5) []) (call 10 20 5)"
    by (simp add: acceptEligible_def paid_def claimsMatch_def priceOf_def channelFor_def
        channelOf_def)
  from Validate_accept_eligible [OF h, of validator0 1] h show ?thesis
    by (simp add: authorizedOf_def nonceOf_def)
qed

text \<open>
  The scenario of the specification: channel 1 with full amount 100, authorized amount 20
  and nonce 5, price 10, claimed income 10, claimed previous amount 20 and nonce 5. The
  call is accepted, and the store still holds authorized amount 20 and nonce 5, not 30
  and 6.
\<close>

theorem Validate_accept_eligible_not_advanced:
  "acceptEligible (staticPrice 10) (world1 (channel 100 20 5) []) (call 10 20 5) \<and>
   authorizedOf (snd (Validate validator0 (Some (call 10 20 5)) (world1 (channel 100 20 5) []))) 1
     = Some 20 \<and>
   authorizedOf (snd (Validate validator0 (Some (call 10 20 5)) (world1 (channel 100 20 5) []))) 1
     \<noteq> Some (20 + 10) \<and>
   nonceOf (snd (Validate validator0 (Some (call 10 20 5)) (world1 (channel 100 20 5) []))) 1
     \<noteq> Some (5 + 1)"
  by (simp add: Validate_def authorizedOf_def nonceOf_def acceptEligible_def paid_def
      claimsMatch_def priceOf_def channelFor_def channelOf_def)

section \<open>The pricing check is not made\<close>

text \<open>
  C3. The validator is documented to check, from pricing information, that a call was
  paid correctly, and to return the gRPC status for the client when it was not. On a
  claimed income of 5 against a required price of 10 the body returns nil all the same:
  the underpaid call is accepted, the status is not PermissionDenied. The store is left
  unchanged, as it should be on a rejection.
\<close>

theorem Validate_underpaid_accepted:
  "underpaid (staticPrice 10) (call 5 20 5) \<and>
   fst (Validate validator0 (Some (call 5 20 5)) (world1 (channel 100 20 5) [])) = None \<and>
   map_option code (fst (Validate validator0 (Some (call 5 20 5)) (world1 (channel 100 20 5) [])))
     \<noteq> Some PermissionDenied \<and>
   snd (Validate validator0 (Some (call 5 20 5)) (world1 (channel 100 20 5) [])) =
     world1 (channel 100 20 5) []"
  by (simp add: Validate_def underpaid_def priceOf_def)

section \<open>No other input class is rejected\<close>

text \<open>
  C4, as the code has it. For every input whose channel id is absent, or whose method
  name cannot be resolved, and whose claimed income is neither negative nor below the
  required price, Validate returns nil (no InvalidArgument status is produced, the body
  does not inspect its argument). Negative claimed income is left aside here.
\<close>

theorem Validate_missing_metadata:
  assumes "channelOf d = None \<or> methodOf d = None"
    and "\<not> negativeIncome d" and "\<not> underpaid price d"
  shows "fst (Validate validator (Some d) w) = None"
  by (simp add: Validate_def)

theorem Validate_missing_metadata_witness:
  "(channelOf (callWithout (Some ''m'') None) = None \<or>
    methodOf (callWithout (Some ''m'') None) = None) \<and>
   \<not> negativeIncome (callWithout (Some ''m'') None) \<and>
   \<not> underpaid (staticPrice 10) (callWithout (Some ''m'') None) \<and>
   fst (Validate validator0 (Some (callWithout (Some ''m'') None))
     (world1 (channel 100 20 5) [])) = None"
proof -
  have h1: "channelOf (callWithout (Some ''m'') None) = None \<or>
      methodOf (callWithout (Some ''m'') None) = None"
    by (simp add: channelOf_def)
  have h2: "\<not> negativeIncome (callWithout (Some ''m'') None)"
    by (simp add: negativeIncome_def)
  have h3: "\<not> underpaid (staticPrice 10) (callWithout (Some ''m'') None)"
    by (simp add: underpaid_def priceOf_def)
  from Validate_missing_metadata [OF h1 h2 h3] h1 h2 h3 show ?thesis
    by simp
qed

text \<open>
  A call without channel id and a call without method name, each with claimed income 10
  at price 10: both are in the class of step 1, and in neither case is the status
  returned InvalidArgument.
\<close>

theorem Validate_missing_metadata_not_rejected:
  "invalidArgument (callWithout (Some ''m'') None) \<and>
   \<not> negativeIncome (callWithout (Some ''m'') None) \<and>
   \<not> underpaid (staticPrice 10) (callWithout (Some ''m'') None) \<and>
   map_option code (fst (Validate validator0 (Some (callWithout (Some ''m'') None))
     (world1 (channel 100 20 5) []))) \<noteq> Some InvalidArgument \<and>
   invalidArgument (callWithout None (Some 1)) \<and>
   \<not> negativeIncome (callWithout None (Some 1)) \<and>
   \<not> underpaid (staticPrice 10) (callWithout None (Some 1)) \<and>
   map_option code (fst (Validate validator0 (Some (callWithout None (Some 1)))
     (world1 (channel 100 20 5) []))) \<noteq> Some InvalidArgument"
  by (simp add: Validate_def invalidArgument_def negativeIncome_def underpaid_def priceOf_def
      channelOf_def methodOf_def)




text \<open>
  C6, as the code has it. For every input that passes the earlier checks, if the current
  authorized amount plus the claimed income exceeds the channel's full amount, or the
  channel's expiration has passed, Validate returns nil (no ResourceExhausted status is
  produced, the body reads no store) and the stored state is unchanged; so is it for the
  channel with full amount 100 and authorized amount 95, price 10 and income 10.
\<close>

theorem Validate_exceeds_or_expired:
  assumes "\<not> invalidArgument d" and "paid price d" and "claimsMatch w d"
    and "exceedsOrExpired w d"
  shows "Validate validator (Some d) w = (None, w)"
  by (simp add: Validate_def)

theorem Validate_exceeds_or_expired_witness:
  "\<not> invalidArgument (call 10 95 5) \<and> paid (staticPrice 10) (call 10 95 5) \<and>
   claimsMatch (world1 (channel 100 95 5) []) (call 10 95 5) \<and>
   exceedsOrExpired (world1 (channel 100 95 5) []) (call 10 95 5) \<and>
   Validate validator0 (Some (call 10 95 5)) (world1 (channel 100 95 5) []) =
     (None, world1 (channel 100 95 5) [])"
proof -
  have h1: "\<not> invalidArgument (call 10 95 5)"
    by (simp add: invalidArgument_def channelOf_def methodOf_def)
  have h2: "paid (staticPrice 10) (call 10 95 5)"
    by (simp add: paid_def priceOf_def)
  have h3: "claimsMatch (world1 (channel 100 95 5) []) (call 10 95 5)"
    by (simp add: claimsMatch_def channelFor_def channelOf_def)
  have h4: "exceedsOrExpired (world1 (channel 100 95 5) []) (call 10 95 5)"
    by (simp add: exceedsOrExpired_def channelFor_def channelOf_def)
  from Validate_exceeds_or_expired [OF h1 h2 h3 h4] h1 h2 h3 h4 show ?thesis
    by simp
qed

text \<open>
  Full amount 100, authorized amount 95, price 10, income 10: the call would reach 105,
  and the status returned is not ResourceExhausted. Nor is it for a call on the channel
  of the first scenario made at time 2000, after its expiration 1000.
\<close>

theorem Validate_exceeds_or_expired_not_rejected:
  "\<not> invalidArgument (call 10 95 5) \<and> paid (staticPrice 10) (call 10 95 5) \<and>
   claimsMatch (world1 (channel 100 95 5) []) (call 10 95 5) \<and>
   exceedsOrExpired (world1 (channel 100 95 5) []) (call 10 95 5) \<and>
   map_option code (fst (Validate validator0 (Some (call 10 95 5))
     (world1 (channel 100 95 5) []))) \<noteq> Some ResourceExhausted \<and>
   exceedsOrExpired \<lparr>store = [1 \<mapsto> channel 100 20 5], clock = 2000, casAnswers = []\<rparr>
     (call 10 20 5) \<and>
   map_option code (fst (Validate validator0 (Some (call 10 20 5))
     \<lparr>store = [1 \<mapsto> channel 100 20 5], clock = 2000, casAnswers = []\<rparr>))
     \<noteq> Some ResourceExhausted"
  by (simp add: Validate_def invalidArgument_def paid_def claimsMatch_def
      exceedsOrExpired_def priceOf_def channelFor_def channelOf_def methodOf_def)

text \<open>
  C7, as the code has it. Validate sends no compare-and-update request to the channel
  state store, so there is no lost race to retry: on an input that passes every check,
  with a store that would answer the next two requests with a conflict, it returns nil
  (never Aborted) and the store's pending answers are untouched.
\<close>

theorem Validate_no_retry:
  assumes "losesRaceTwice price w d"
  shows "fst (Validate validator (Some d) w) = None \<and>
         casAnswers (snd (Validate validator (Some d) w)) = casAnswers w"
  by (simp add: Validate_def)

theorem Validate_no_retry_witness:
  "losesRaceTwice (staticPrice 10) (world1 (channel 100 20 5) [False, False]) (call 10 20 5) \<and>
   fst (Validate validator0 (Some (call 10 20 5)) (world1 (channel 100 20 5) [False, False]))
     = None \<and>
   casAnswers (snd (Validate validator0 (Some (call 10 20 5))
     (world1 (channel 100 20 5) [False, False]))) = [False, False]"
proof -
  have h: "losesRaceTwice (staticPrice 10) (world1 (channel 100 20 5) [False, False])
      (call 10 20 5)"
    by (simp add: losesRaceTwice_def invalidArgument_def paid_def claimsMatch_def
        withinAndUnexpired_def priceOf_def channelFor_def channelOf_def methodOf_def)
  from Validate_no_retry [OF h, of validator0] h show ?thesis
    by simp
qed

text \<open>
  With a store whose next two answers are conflicts, the status returned is not Aborted,
  and neither of the two answers has been consumed.
\<close>

theorem Validate_no_retry_not_aborted:
  "losesRaceTwice (staticPrice 10) (world1 (channel 100 20 5) [False, False]) (call 10 20 5) \<and>
   map_option code (fst (Validate validator0 (Some (call 10 20 5))
     (world1 (channel 100 20 5) [False, False]))) \<noteq> Some Aborted \<and>
   casAnswers (snd (Validate validator0 (Some (call 10 20 5))
     (world1 (channel 100 20 5) [False, False]))) \<noteq> drop 2 [False, False]"
  by (simp add: Validate_def losesRaceTwice_def invalidArgument_def paid_def claimsMatch_def
      withinAndUnexpired_def priceOf_def channelFor_def channelOf_def methodOf_def)

section \<open>The channel invariant over a run of calls\<close>

lemma validateAll_nth:
  "k \<le> length ds \<Longrightarrow> validateAll validator ds w ! k = w"
proof (induction ds arbitrary: k)
  case Nil
  then show ?case by simp
next
  case (Cons d ds)
  then show ?case
    by (cases k) (simp_all add: Validate_def)
qed

lemma notDecreased_refl: "notDecreased c w w"
  by (simp add: notDecreased_def split: option.split)

text \<open>
  C8. For every channel and every sequence of Validate operations, started where the
  channel's authorized amount is at most its full amount: after each operation (the
  \<open>k\<close>-th, counted from 0) the authorized amount is still at most the full amount, and
  it is not less than it was before that operation.
\<close>

theorem validateAll_invariant:
  assumes "withinDeposit w c" and "k < length ds"
  shows "withinDeposit (validateAll validator ds w ! Suc k) c \<and>
         notDecreased c (validateAll validator ds w ! k) (validateAll validator ds w ! Suc k)"
  using assms by (simp add: validateAll_nth notDecreased_refl)

theorem validateAll_invariant_witness:
  "withinDeposit (world1 (channel 100 20 5) []) 1 \<and>
   (withinDeposit (validateAll validator0 [Some (call 10 20 5), None]
      (world1 (channel 100 20 5) []) ! Suc 0) 1 \<and>
    notDecreased 1
      (validateAll validator0 [Some (call 10 20 5), None] (world1 (channel 100 20 5) []) ! 0)
      (validateAll validator0 [Some (call 10 20 5), None] (world1 (channel 100 20 5) []) ! Suc 0)) \<and>
   (withinDeposit (validateAll validator0 [Some (call 10 20 5), None]
      (world1 (channel 100 20 5) []) ! Suc 1) 1 \<and>
    notDecreased 1
      (validateAll validator0 [Some (call 10 20 5), None] (world1 (channel 100 20 5) []) ! 1)
      (validateAll validator0 [Some (call 10 20 5), None] (world1 (channel 100 20 5) []) ! Suc 1))"
proof -
  let ?w = "world1 (channel 100 20 5) []"
  let ?ds = "[Some (call 10 20 5), None]"
  have h: "withinDeposit ?w 1"
    by (simp add: withinDeposit_def)
  have k0: "0 < length ?ds" and k1: "1 < length ?ds"
    by simp_all
  note first = validateAll_invariant [OF h k0, of validator0]
  note second = validateAll_invariant [OF h k1, of validator0]
  show ?thesis
    by (rule conjI [OF h conjI [OF first second]])
qed

section \<open>Calls contending for one channel\<close>

lemma outcomes_replicate:
  "outcomes validator ds w = replicate (length ds) None"
  by (induction ds arbitrary: w) (simp_all add: Validate_def)

lemma validateAll_list_all:
  "list_all Q (validateAll validator ds w) = Q w"
  by (induction ds arbitrary: w) (auto simp add: Validate_def)

lemma accepted_replicate: "accepted (replicate n None) = n"
  by (simp add: accepted_def)

lemma rejectedAs_replicate: "rejectedAs k (replicate n None) = 0"
  by (simp add: rejectedAs_def)

lemma accepted_observed:
  "accepted (map (\<lambda>(d, w'). fst (Validate validator (Some d) w')) obs) = length obs"
  by (induction obs) (auto simp add: accepted_def Validate_def)

lemma contended_withinDeposit:
  assumes "contended price P k w c ds"
  shows "withinDeposit w c"
proof (cases "store w c")
  case None
  with assms show ?thesis
    by (simp add: contended_def)
next
  case (Some ch)
  with assms have pos: "0 < P" and rest: "fullAmount ch - authorizedAmount ch = int k * P"
    by (simp_all add: contended_def)
  from pos have "0 \<le> int k * P"
    by simp
  with rest Some show ?thesis
    by (simp add: withinDeposit_def)
qed

text \<open>
  C9, as the code has it. Validate reads and writes no shared state, so the status of a
  call does not depend on what runs beside it. For N accept-eligible calls each claiming
  the price P on one channel whose remaining capacity is exactly k times P, with k less
  than N: run one after the other in any order, all N calls return nil, none is rejected
  with ResourceExhausted or Aborted; so do they whatever environment each of them
  observes; and at every point of the run the stored authorized amount is what it was
  at the start, hence never above the full amount.
\<close>

theorem Validate_contended:
  assumes "contended price P k w c ds" and "map fst obs = ds"
  shows "accepted (outcomes validator (map Some ds) w) = length ds \<and>
         rejectedAs ResourceExhausted (outcomes validator (map Some ds) w) = 0 \<and>
         rejectedAs Aborted (outcomes validator (map Some ds) w) = 0 \<and>
         accepted (map (\<lambda>(d, w'). fst (Validate validator (Some d) w')) obs) = length ds \<and>
         list_all (\<lambda>w'. authorizedOf w' c = authorizedOf w c \<and> withinDeposit w' c)
           (validateAll validator (map Some ds) w)"
proof -
  from assms(2) have "length obs = length ds"
    by (metis length_map)
  with contended_withinDeposit [OF assms(1)] show ?thesis
    by (simp add: outcomes_replicate accepted_replicate rejectedAs_replicate
        accepted_observed validateAll_list_all)
qed

theorem Validate_contended_witness:
  "contended (staticPrice 10) 10 2 (world1 (channel 100 80 5) []) 1 fiveCalls \<and>
   accepted (outcomes validator0 (map Some fiveCalls) (world1 (channel 100 80 5) [])) = 5 \<and>
   rejectedAs ResourceExhausted
     (outcomes validator0 (map Some fiveCalls) (world1 (channel 100 80 5) [])) = 0 \<and>
   rejectedAs Aborted
     (outcomes validator0 (map Some fiveCalls) (world1 (channel 100 80 5) [])) = 0 \<and>
   accepted (map (\<lambda>(d, w'). fst (Validate validator0 (Some d) w'))
     (zip fiveCalls [world1 (channel 100 80 5) [], world1 (channel 100 90 6) [],
        world1 (channel 100 100 7) [], world1 (channel 100 100 7) [],
        world1 (channel 100 100 7) []])) = 5 \<and>
   list_all (\<lambda>w'. authorizedOf w' 1 = Some 80 \<and> withinDeposit w' 1)
     (validateAll validator0 (map Some fiveCalls) (world1 (channel 100 80 5) []))"
proof -
  let ?w = "world1 (channel 100 80 5) []"
  let ?obs = "zip fiveCalls [world1 (channel 100 80 5) [], world1 (channel 100 90 6) [],
        world1 (channel 100 100 7) [], world1 (channel 100 100 7) [],
        world1 (channel 100 100 7) []]"
  have h: "contended (staticPrice 10) 10 2 ?w 1 fiveCalls"
    by (simp add: contended_def acceptEligible_def paid_def claimsMatch_def priceOf_def
        channelFor_def channelOf_def)
  have o: "map fst ?obs = fiveCalls"
    by simp
  have len: "length fiveCalls = 5" and start: "authorizedOf ?w 1 = Some 80"
    by (simp_all add: authorizedOf_def)
  note run = Validate_contended [OF h o, of validator0]
  from run h show ?thesis
    unfolding len start by blast
qed

text \<open>
  Five calls at price 10 on a channel with full amount 100 and authorized amount 80, so
  with room for two: all five are accepted, not two, and none of the other three is
  rejected with ResourceExhausted or Aborted.
\<close>

theorem Validate_contended_all_accepted:
  "contended (staticPrice 10) 10 2 (world1 (channel 100 80 5) []) 1 fiveCalls \<and>
   accepted (outcomes validator0 (map Some fiveCalls) (world1 (channel 100 80 5) [])) = 5 \<and>
   accepted (outcomes validator0 (map Some fiveCalls) (world1 (channel 100 80 5) [])) \<noteq> 2 \<and>
   rejectedAs ResourceExhausted
       (outcomes validator0 (map Some fiveCalls) (world1 (channel 100 80 5) [])) +
     rejectedAs Aborted
       (outcomes validator0 (map Some fiveCalls) (world1 (channel 100 80 5) [])) \<noteq> 5 - 2"
  by (simp add: Validate_def accepted_def rejectedAs_def contended_def acceptEligible_def
      paid_def claimsMatch_def priceOf_def channelFor_def channelOf_def)

section \<open>The configuration check\<close>

lemma config_Validate_unrecognized:
  assumes "vip DaemonTypeKey \<noteq> ''grpc''" and "vip DaemonTypeKey \<noteq> ''http''"
  shows "config_Validate vip =
    Some (''unrecognized DAEMON_TYPE '' @ [CHR 0x27] @ vip DaemonTypeKey @ [CHR 0x27])"
  using assms by (simp add: config_Validate_def Let_def)

lemma config_Validate_recognized:
  assumes "vip DaemonTypeKey = ''grpc'' \<or> vip DaemonTypeKey = ''http''"
  shows "config_Validate vip =
    (if (vip SSLCertPathKey = []) = (vip SSLKeyPathKey = []) then None
     else Some ''SSL requires both key and certificate when enabled'')"
  using assms by (auto simp add: config_Validate_def Let_def)

text \<open>
  C10. config.Validate returns an error exactly when the configured daemon type is
  neither "grpc" nor "http", or exactly one of the SSL certificate path and the SSL key
  path is non-empty; so with a daemon type "grpc" or "http" and both paths empty or both
  non-empty it returns nil.
\<close>

theorem config_Validate_error_iff:
  "(config_Validate vip \<noteq> None) =
     ((vip DaemonTypeKey \<noteq> ''grpc'' \<and> vip DaemonTypeKey \<noteq> ''http'') \<or>
      (vip SSLCertPathKey \<noteq> [] \<and> vip SSLKeyPathKey = []) \<or>
      (vip SSLCertPathKey = [] \<and> vip SSLKeyPathKey \<noteq> []))"
proof (cases "vip DaemonTypeKey = ''grpc'' \<or> vip DaemonTypeKey = ''http''")
  case True
  then show ?thesis
    by (auto simp add: config_Validate_recognized)
next
  case False
  then show ?thesis
    by (simp add: config_Validate_unrecognized)
qed

end
